theory Spec2Isabelle
  imports Main "HOL-Library.Product_Lexorder"
begin

section \<open>The telemetry database of n8n-mcp\<close>

text \<open>
  The program is the PostgreSQL setup script of the telemetry backend: three tables with
  their constraints, the row level security policies, the PL/pgSQL functions
  \<^verbatim>\<open>create_telemetry_partition\<close>, \<^verbatim>\<open>insert_telemetry_event\<close>,
  \<^verbatim>\<open>insert_telemetry_workflow\<close>, \<^verbatim>\<open>get_telemetry_stats\<close>,
  \<^verbatim>\<open>cleanup_old_telemetry_data\<close> and the audit trigger
  \<^verbatim>\<open>audit_telemetry_changes\<close>. A table is the list of its rows, a function of the
  script is a function from the database to an error or a result with the new database, and
  a statement that raises leaves the database as it was (the transaction is rolled back).

  What the script leaves to PostgreSQL is written out where a function meets it: the
  comparison with NULL, the fit of a value to the type of its column, the policies of row
  level security, the row trigger that follows a statement. Arguments are values, not
  NULL; a client that inserts a row gives the three or eight columns the insert functions
  give and leaves \<open>id\<close> and \<open>created_at\<close> to their defaults; transactions run one
  after the other.
\<close>

subsection \<open>Values\<close>

type_synonym uuid = nat

datatype jsonb =
    JNull
  | JBool bool
  | JNumber int
  | JString string
  | JArray "jsonb list"
  | JObject "(string \<times> jsonb) list"

fun jsonb_typeof :: "jsonb \<Rightarrow> string" where
  "jsonb_typeof JNull = ''null''"
| "jsonb_typeof (JBool b) = ''boolean''"
| "jsonb_typeof (JNumber n) = ''number''"
| "jsonb_typeof (JString s) = ''string''"
| "jsonb_typeof (JArray xs) = ''array''"
| "jsonb_typeof (JObject kvs) = ''object''"

text \<open>
  A DATE is a civil date (year, month, day). A TIMESTAMPTZ is a civil date with the
  microseconds since midnight, read in the time zone of the session. The order of pairs is
  lexicographic, so \<open><\<close> on both types is "earlier than".
\<close>

type_synonym date = "int \<times> nat \<times> nat"
type_synonym timestamptz = "date \<times> nat"

definition DATE :: "timestamptz \<Rightarrow> date" where
  "DATE ts = fst ts"

definition leap_year :: "int \<Rightarrow> bool" where
  "leap_year y = (y mod 4 = 0 \<and> (y mod 100 \<noteq> 0 \<or> y mod 400 = 0))"

definition days_in_month :: "int \<Rightarrow> nat \<Rightarrow> nat" where
  "days_in_month y m =
     (if m = 2 then (if leap_year y then 29 else 28)
      else if m = 4 \<or> m = 6 \<or> m = 9 \<or> m = 11 then 30 else 31)"

text \<open>
  Interval arithmetic as PostgreSQL does it: months and years move the month and the year
  and keep the day, cut down to the last day of the month reached; days step through the
  calendar.
\<close>

definition plus_interval_1_month :: "date \<Rightarrow> date" where
  "plus_interval_1_month d =
     (case d of (y, m, dd) \<Rightarrow>
        if m = 12 then (y + 1, 1, min dd (days_in_month (y + 1) 1))
        else (y, m + 1, min dd (days_in_month y (m + 1))))"

definition minus_interval_2_years :: "timestamptz \<Rightarrow> timestamptz" where
  "minus_interval_2_years ts =
     (case ts of ((y, m, dd), us) \<Rightarrow> ((y - 2, m, min dd (days_in_month (y - 2) m)), us))"

definition previous_day :: "date \<Rightarrow> date" where
  "previous_day d =
     (case d of (y, m, dd) \<Rightarrow>
        if 1 < dd then (y, m, dd - 1)
        else if 1 < m then (y, m - 1, days_in_month y (m - 1))
        else (y - 1, 12, 31))"

definition minus_interval_30_days :: "timestamptz \<Rightarrow> timestamptz" where
  "minus_interval_30_days ts = ((previous_day ^^ 30) (fst ts), snd ts)"

text \<open>Decimal output, for \<^verbatim>\<open>to_char(start_date, 'YYYY_MM')\<close>.\<close>

definition digit :: "nat \<Rightarrow> char" where
  "digit n = ''0123456789'' ! (n mod 10)"

fun decimal :: "nat \<Rightarrow> string" where
  "decimal n = (if n < 10 then [digit n] else decimal (n div 10) @ [digit n])"

declare decimal.simps [simp del]

definition zero_padded :: "nat \<Rightarrow> nat \<Rightarrow> string" where
  "zero_padded w n = replicate (w - length (decimal n)) (CHR ''0'') @ decimal n"

definition to_char_YYYY_MM :: "date \<Rightarrow> string" where
  "to_char_YYYY_MM d =
     (case d of (y, m, dd) \<Rightarrow> zero_padded 4 (nat y) @ ''_'' @ zero_padded 2 m)"

text \<open>
  The text of a timestamp inside a JSON value, for a session in UTC: the date, \<open>T\<close>,
  the time, the fraction of the second without the zeros at its end (nothing when it is
  zero), and the offset.
\<close>

definition fraction_out :: "nat \<Rightarrow> string" where
  "fraction_out us =
     (if us mod 1000000 = 0 then []
      else ''.'' @ rev (dropWhile (\<lambda>c. c = CHR ''0'') (rev (zero_padded 6 (us mod 1000000)))))"

definition timestamptz_out :: "timestamptz \<Rightarrow> string" where
  "timestamptz_out ts =
     (case ts of ((y, m, dd), us) \<Rightarrow>
        zero_padded 4 (nat y) @ ''-'' @ zero_padded 2 m @ ''-'' @ zero_padded 2 dd @ ''T''
        @ zero_padded 2 (us div 3600000000) @ '':''
        @ zero_padded 2 (us div 60000000 mod 60) @ '':''
        @ zero_padded 2 (us div 1000000 mod 60)
        @ fraction_out us @ ''+00:00'')"

text \<open>
  \<^verbatim>\<open>array_length(a, 1)\<close> is NULL for an array without elements. A condition that
  is NULL does not take the branch of an \<^verbatim>\<open>IF\<close>, and does not violate a
  \<^verbatim>\<open>CHECK\<close> constraint, which only a false condition does.
\<close>

definition array_length :: "'a list \<Rightarrow> nat \<Rightarrow> int option" where
  "array_length a dim = (if a = [] \<or> dim \<noteq> 1 then None else Some (int (length a)))"

definition sql_eq :: "int option \<Rightarrow> int \<Rightarrow> bool option" where
  "sql_eq a b = (case a of None \<Rightarrow> None | Some x \<Rightarrow> Some (x = b))"

definition sql_gt :: "int option \<Rightarrow> int \<Rightarrow> bool option" where
  "sql_gt a b = (case a of None \<Rightarrow> None | Some x \<Rightarrow> Some (b < x))"

definition if_taken :: "bool option \<Rightarrow> bool" where
  "if_taken c = (c = Some True)"

definition check_violated :: "bool option \<Rightarrow> bool" where
  "check_violated c = (c = Some False)"

subsection \<open>Errors\<close>

text \<open>
  \<open>ValidationError\<close> is a \<^verbatim>\<open>RAISE EXCEPTION\<close> of one of the two insert
  functions, with its message. \<open>PermissionDenied\<close> is the refusal of a statement
  (SQLSTATE 42501): the role lacks a privilege on the table, or no policy admits the row
  of an INSERT. \<open>StorageError\<close> is an error the storage engine raises by
  itself: a constraint of a table that is violated (named by the constraint), a value that
  does not fit its column, an expression of the wrong type for its column.
\<close>

datatype error =
    ValidationError string
  | PermissionDenied
  | StorageError string

text \<open>Sequencing: the first error ends the statement.\<close>

definition and_then :: "error + 'a \<Rightarrow> ('a \<Rightarrow> error + 'b) \<Rightarrow> error + 'b" where
  "and_then x f = (case x of Inl err \<Rightarrow> Inl err | Inr v \<Rightarrow> f v)"

subsection \<open>Tables\<close>

text \<open>
  The rows of \<^verbatim>\<open>telemetry_events\<close>, \<^verbatim>\<open>telemetry_workflows\<close> and
  \<^verbatim>\<open>telemetry_audit_log\<close> (lines 48 to 96 of the script). The columns of the
  audit log that may be NULL are options.
\<close>

record telemetry_events_row =
  e_id :: uuid
  e_user_id :: string
  e_event :: string
  e_properties :: jsonb
  e_created_at :: timestamptz

record telemetry_workflows_row =
  w_id :: uuid
  w_user_id :: string
  w_workflow_hash :: string
  w_node_count :: int
  w_node_types :: "string list"
  w_has_trigger :: bool
  w_has_webhook :: bool
  w_complexity :: string
  w_sanitized_workflow :: jsonb
  w_created_at :: timestamptz

record telemetry_audit_log_row =
  a_id :: uuid
  a_operation :: string
  a_table_name :: string
  a_record_count :: "int option"
  a_user_role :: "string option"
  a_ip_address :: "string option"
  a_metadata :: "jsonb option"
  a_created_at :: timestamptz

datatype command = SELECT | INSERT | UPDATE | DELETE

text \<open>A partition: its name, its parent table and the bounds FROM (inclusive) TO (exclusive).\<close>

record partition =
  p_name :: string
  p_parent :: string
  p_from :: date
  p_to :: date

text \<open>
  The database: the rows of the three tables, and the parts of its catalogue that the
  functions of the script depend on. \<open>relations\<close> are the names of the relations that
  exist, \<open>partitioned\<close> those of them that were created with \<^verbatim>\<open>PARTITION BY\<close>,
  \<open>partitions\<close> the partitions attached to them. \<open>grants\<close> are the table
  privileges of the roles, as (role, command, table): the script has no GRANT, so they are
  whatever was granted outside it, and every property below says which privileges it needs.
\<close>

record db =
  telemetry_events :: "telemetry_events_row list"
  telemetry_workflows :: "telemetry_workflows_row list"
  telemetry_audit_log :: "telemetry_audit_log_row list"
  relations :: "string list"
  partitioned :: "string list"
  partitions :: "partition list"
  grants :: "(string \<times> command \<times> string) list"

text \<open>
  What a transaction reads from its session: \<open>role\<close> is
  \<^verbatim>\<open>current_setting('role')\<close> (\<open>''anon''\<close> and \<open>''service_role''\<close> for the
  two API roles, \<open>''none''\<close> for a session that never set a role, which is how the owner
  of the tables and its scheduled jobs connect); \<open>now\<close> is \<^verbatim>\<open>NOW()\<close>, the
  start of the transaction; \<open>gen k\<close> is the value the \<open>k\<close>-th call of
  \<^verbatim>\<open>uuid_generate_v4()\<close> in the transaction returns. The generator is random, so
  \<open>gen\<close> is arbitrary and the primary keys decide whether a value is accepted.
\<close>

record session =
  role :: string
  now :: timestamptz
  gen :: "nat \<Rightarrow> uuid"

definition CURRENT_DATE :: "session \<Rightarrow> date" where
  "CURRENT_DATE ses = DATE (now ses)"

subsection \<open>Storing a value in a column\<close>

text \<open>
  A string stored in a \<^verbatim>\<open>VARCHAR(n)\<close> column must have at most \<open>n\<close>
  characters, except that characters beyond the \<open>n\<close>-th that are all spaces are cut off
  silently. The length in the type of a function's parameter (\<^verbatim>\<open>p_user_id
  VARCHAR(64)\<close>) is not enforced: the parameter takes any string.
\<close>

definition assign_varchar :: "nat \<Rightarrow> string \<Rightarrow> error + string" where
  "assign_varchar n s =
     (if length s \<le> n then Inr s
      else if list_all (\<lambda>c. c = CHR '' '') (drop n s) then Inr (take n s)
      else Inl (StorageError (''value too long for type character varying('' @ decimal n @ '')'')))"

text \<open>
  An INTEGER column takes an integer expression or NULL. A boolean expression is not
  converted on assignment (the cast from boolean to integer is explicit only), the
  statement is rejected.
\<close>

datatype sql_value = VInteger int | VBoolean bool | VNull

fun assign_integer :: "sql_value \<Rightarrow> error + int option" where
  "assign_integer (VInteger i) = Inr (Some i)"
| "assign_integer VNull = Inr None"
| "assign_integer (VBoolean b) =
     Inl (StorageError ''column record_count is of type integer but expression is of type boolean'')"

subsection \<open>Privileges and row level security\<close>

text \<open>
  The policies of the script (lines 189 to 218): name, table, command (\<open>None\<close> for
  \<^verbatim>\<open>FOR ALL\<close>) and role. Each has the condition \<^verbatim>\<open>true\<close>.
\<close>

definition policies :: "(string \<times> string \<times> command option \<times> string) list" where
  "policies =
     [(''anon_insert_telemetry_events'', ''telemetry_events'', Some INSERT, ''anon''),
      (''anon_insert_telemetry_workflows'', ''telemetry_workflows'', Some INSERT, ''anon''),
      (''service_role_all_telemetry_events'', ''telemetry_events'', None, ''service_role''),
      (''service_role_all_telemetry_workflows'', ''telemetry_workflows'', None, ''service_role''),
      (''service_role_all_audit_log'', ''telemetry_audit_log'', None, ''service_role'')]"

text \<open>
  A role other than the owner of the tables runs a statement on a table in two steps.
  It must hold the privilege for each command the statement needs, or the statement is
  refused ("permission denied for table", SQLSTATE 42501). Then row level security, which
  the script enables on the three tables, applies its policies: a SELECT, UPDATE or DELETE
  sees only the rows a policy of the role admits, so without a policy it succeeds on no
  row; an INSERT without a policy is refused ("new row violates row-level security
  policy", SQLSTATE 42501 as well). The owner of the tables (the session without a role)
  holds every privilege and is not subject to the policies.
\<close>

definition policy_applies :: "string \<Rightarrow> command \<Rightarrow> string \<Rightarrow> bool" where
  "policy_applies r c t =
     list_ex (\<lambda>(n, t', c', r'). t' = t \<and> r' = r \<and> (c' = None \<or> c' = Some c)) policies"

definition granted :: "db \<Rightarrow> string \<Rightarrow> command \<Rightarrow> string \<Rightarrow> bool" where
  "granted d r c t = ((r, c, t) \<in> set (grants d))"

datatype access = Refused | Without_rows | With_rows

definition access_of :: "session \<Rightarrow> db \<Rightarrow> command list \<Rightarrow> string \<Rightarrow> access" where
  "access_of ses d cs t =
     (if role ses = ''none'' then With_rows
      else if \<not> list_all (\<lambda>c. granted d (role ses) c t) cs then Refused
      else if list_all (\<lambda>c. policy_applies (role ses) c t) cs then With_rows
      else if INSERT \<in> set cs then Refused
      else Without_rows)"

text \<open>
  A statement under the role of the session: \<open>hidden\<close> is its outcome on no row,
  \<open>visible\<close> its outcome on the rows of the table.
\<close>

definition as_role ::
  "session \<Rightarrow> db \<Rightarrow> command list \<Rightarrow> string \<Rightarrow> error + 'a \<Rightarrow> error + 'a \<Rightarrow> error + 'a" where
  "as_role ses d cs t hidden visible =
     (case access_of ses d cs t of
        Refused \<Rightarrow> Inl PermissionDenied
      | Without_rows \<Rightarrow> hidden
      | With_rows \<Rightarrow> visible)"

subsection \<open>The audit log and the audit trigger\<close>

text \<open>
  One row of a \<^verbatim>\<open>VALUES\<close> list for \<^verbatim>\<open>telemetry_audit_log
  (operation, table_name, record_count, user_role, metadata)\<close>, with the number of the
  \<^verbatim>\<open>uuid_generate_v4()\<close> call that fills its \<open>id\<close>.
\<close>

type_synonym audit_values = "nat \<times> string \<times> string \<times> sql_value \<times> string option \<times> jsonb option"

definition assign_varchar_opt :: "nat \<Rightarrow> string option \<Rightarrow> error + string option" where
  "assign_varchar_opt n s =
     (case s of None \<Rightarrow> Inr None | Some v \<Rightarrow> and_then (assign_varchar n v) (\<lambda>v'. Inr (Some v')))"

fun insert_into_telemetry_audit_log ::
  "session \<Rightarrow> audit_values list \<Rightarrow> db \<Rightarrow> error + db" where
  "insert_into_telemetry_audit_log ses [] d = Inr d"
| "insert_into_telemetry_audit_log ses ((k, operation, table_name, record_count, user_role, metadata) # vs) d =
     and_then (assign_integer record_count) (\<lambda>rc.
     and_then (assign_varchar 50 operation) (\<lambda>op.
     and_then (assign_varchar 50 table_name) (\<lambda>tn.
     and_then (assign_varchar_opt 50 user_role) (\<lambda>ur.
       if gen ses k \<in> a_id ` set (telemetry_audit_log d)
       then Inl (StorageError ''telemetry_audit_log_pkey'')
       else insert_into_telemetry_audit_log ses vs
              (d\<lparr>telemetry_audit_log := telemetry_audit_log d @
                  [\<lparr>a_id = gen ses k, a_operation = op, a_table_name = tn, a_record_count = rc,
                    a_user_role = ur, a_ip_address = None, a_metadata = metadata,
                    a_created_at = now ses\<rparr>]\<rparr>)))))"

text \<open>
  The trigger function (lines 463 to 497), run after each row that is inserted, updated or
  deleted in \<^verbatim>\<open>telemetry_events\<close> and \<^verbatim>\<open>telemetry_workflows\<close>. \<open>k\<close> numbers the
  call of the uuid generator for the audit row. The value it gives \<open>record_count\<close> is
  \<^verbatim>\<open>CASE WHEN TG_OP = 'DELETE' THEN OLD.id IS NOT NULL ELSE NEW.id IS NOT NULL END\<close>,
  a boolean, true since \<open>id\<close> is a primary key. The role is never NULL, so the
  \<^verbatim>\<open>COALESCE\<close> returns it. An error of the trigger is an error of the
  statement that fired it. The INSERT of the trigger is rejected for the type of
  \<open>record_count\<close> when it is analysed, before any privilege is looked at, so the
  privileges of the role on the audit log play no part.
\<close>

definition audit_telemetry_changes ::
  "session \<Rightarrow> nat \<Rightarrow> string \<Rightarrow> string \<Rightarrow> db \<Rightarrow> error + db" where
  "audit_telemetry_changes ses k TG_OP TG_TABLE_NAME d =
     (if TG_OP \<noteq> ''INSERT'' \<or> (TG_OP = ''INSERT'' \<and> role ses \<noteq> ''anon'') then
        insert_into_telemetry_audit_log ses
          [(k, TG_OP, TG_TABLE_NAME, VBoolean True, Some (role ses),
            Some (JObject [(''timestamp'', JString (timestamptz_out (now ses))),
                           (''operation'', JString TG_OP),
                           (''table'', JString TG_TABLE_NAME)]))] d
      else Inr d)"

text \<open>The trigger for each of \<open>n\<close> rows, the audit rows taking the uuids from the \<open>k\<close>-th on.\<close>

fun for_each_row ::
  "session \<Rightarrow> nat \<Rightarrow> string \<Rightarrow> string \<Rightarrow> nat \<Rightarrow> db \<Rightarrow> error + db" where
  "for_each_row ses k TG_OP TG_TABLE_NAME 0 d = Inr d"
| "for_each_row ses k TG_OP TG_TABLE_NAME (Suc n) d =
     and_then (audit_telemetry_changes ses k TG_OP TG_TABLE_NAME d)
       (for_each_row ses (Suc k) TG_OP TG_TABLE_NAME n)"

subsection \<open>Statements on \<^verbatim>\<open>telemetry_events\<close>\<close>

text \<open>
  \<^verbatim>\<open>INSERT INTO telemetry_events (user_id, event, properties) VALUES (u, e, p)
  RETURNING id\<close>: the values are fitted to their columns, the CHECK constraints (in the
  order of their names, as PostgreSQL tests them) and the primary key are tested on the row
  with its defaults, and the audit trigger runs.
\<close>

definition check_telemetry_events_row :: "telemetry_events_row \<Rightarrow> error option" where
  "check_telemetry_events_row r =
     (if \<not> (1 \<le> length (e_event r) \<and> length (e_event r) \<le> 100)
        then Some (StorageError ''telemetry_events_event_length'')
      else if \<not> jsonb_typeof (e_properties r) = ''object''
        then Some (StorageError ''telemetry_events_properties_not_empty'')
      else if \<not> 16 \<le> length (e_user_id r)
        then Some (StorageError ''telemetry_events_user_id_length'')
      else None)"

definition fit_telemetry_events_row :: "telemetry_events_row \<Rightarrow> error + telemetry_events_row" where
  "fit_telemetry_events_row r =
     and_then (assign_varchar 64 (e_user_id r)) (\<lambda>u'.
     and_then (assign_varchar 100 (e_event r)) (\<lambda>e'.
       let r' = r\<lparr>e_user_id := u', e_event := e'\<rparr> in
       case check_telemetry_events_row r' of Some err \<Rightarrow> Inl err | None \<Rightarrow> Inr r'))"

definition insert_into_telemetry_events ::
  "session \<Rightarrow> string \<Rightarrow> string \<Rightarrow> jsonb \<Rightarrow> db \<Rightarrow> error + (uuid \<times> db)" where
  "insert_into_telemetry_events ses u e p d =
     and_then
       (fit_telemetry_events_row
          \<lparr>e_id = gen ses 0, e_user_id = u, e_event = e, e_properties = p,
           e_created_at = now ses\<rparr>)
       (\<lambda>r. if e_id r \<in> e_id ` set (telemetry_events d)
            then Inl (StorageError ''telemetry_events_pkey'')
            else and_then
                   (audit_telemetry_changes ses 1 ''INSERT'' ''telemetry_events''
                      (d\<lparr>telemetry_events := telemetry_events d @ [r]\<rparr>))
                   (\<lambda>d'. Inr (e_id r, d')))"

text \<open>
  \<^verbatim>\<open>SELECT\<close>, \<^verbatim>\<open>DELETE\<close> and \<^verbatim>\<open>UPDATE\<close> with a
  \<^verbatim>\<open>WHERE\<close> condition \<open>cond\<close>; an update gives the new row as a function
  \<open>upd\<close> of the old one. The row trigger runs once for each row deleted or updated.
\<close>

definition select_from_telemetry_events ::
  "(telemetry_events_row \<Rightarrow> bool) \<Rightarrow> db \<Rightarrow> telemetry_events_row list" where
  "select_from_telemetry_events cond d = filter cond (telemetry_events d)"

definition delete_from_telemetry_events ::
  "session \<Rightarrow> nat \<Rightarrow> (telemetry_events_row \<Rightarrow> bool) \<Rightarrow> db \<Rightarrow> error + (nat \<times> db)" where
  "delete_from_telemetry_events ses k cond d =
     (let n = length (filter cond (telemetry_events d)) in
      and_then
        (for_each_row ses k ''DELETE'' ''telemetry_events'' n
           (d\<lparr>telemetry_events := filter (\<lambda>r. \<not> cond r) (telemetry_events d)\<rparr>))
        (\<lambda>d'. Inr (n, d')))"

fun fit_each :: "('r \<Rightarrow> error + 'r) \<Rightarrow> ('r \<Rightarrow> bool) \<Rightarrow> ('r \<Rightarrow> 'r) \<Rightarrow> 'r list \<Rightarrow> error + 'r list" where
  "fit_each fit cond upd [] = Inr []"
| "fit_each fit cond upd (r # rs) =
     and_then (if cond r then fit (upd r) else Inr r) (\<lambda>r'.
     and_then (fit_each fit cond upd rs) (\<lambda>rs'. Inr (r' # rs')))"

definition update_telemetry_events ::
  "session \<Rightarrow> (telemetry_events_row \<Rightarrow> bool) \<Rightarrow> (telemetry_events_row \<Rightarrow> telemetry_events_row)
     \<Rightarrow> db \<Rightarrow> error + (nat \<times> db)" where
  "update_telemetry_events ses cond upd d =
     (let n = length (filter cond (telemetry_events d)) in
      and_then (fit_each fit_telemetry_events_row cond upd (telemetry_events d)) (\<lambda>rs.
        if \<not> distinct (map e_id rs) then Inl (StorageError ''telemetry_events_pkey'')
        else and_then
               (for_each_row ses 0 ''UPDATE'' ''telemetry_events'' n (d\<lparr>telemetry_events := rs\<rparr>))
               (\<lambda>d'. Inr (n, d'))))"

text \<open>
  \<^verbatim>\<open>insert_telemetry_event\<close> (lines 225 to 253). It is SECURITY DEFINER: its INSERT
  runs as the owner of the tables, whatever the role of the caller, and the role setting
  the trigger reads stays the caller's.
\<close>

definition insert_telemetry_event ::
  "session \<Rightarrow> string \<Rightarrow> string \<Rightarrow> jsonb \<Rightarrow> db \<Rightarrow> error + (uuid \<times> db)" where
  "insert_telemetry_event ses p_user_id p_event p_properties d =
     (if length p_user_id < 16
        then Inl (ValidationError ''user_id must be at least 16 characters'')
      else if length p_event < 1 \<or> length p_event > 100
        then Inl (ValidationError ''event must be between 1 and 100 characters'')
      else if jsonb_typeof p_properties \<noteq> ''object''
        then Inl (ValidationError ''properties must be a JSON object'')
      else insert_into_telemetry_events ses p_user_id p_event p_properties d)"

subsection \<open>Statements on \<^verbatim>\<open>telemetry_workflows\<close>\<close>

record workflow_values =
  p_user_id :: string
  p_workflow_hash :: string
  p_node_count :: int
  p_node_types :: "string list"
  p_has_trigger :: bool
  p_has_webhook :: bool
  p_complexity :: string
  p_sanitized_workflow :: jsonb

definition check_telemetry_workflows_row :: "telemetry_workflows_row \<Rightarrow> error option" where
  "check_telemetry_workflows_row r =
     (if \<not> w_complexity r \<in> {''simple'', ''medium'', ''complex''}
        then Some (StorageError ''telemetry_workflows_complexity_enum'')
      else if \<not> 0 < w_node_count r
        then Some (StorageError ''telemetry_workflows_node_count_positive'')
      else if check_violated (sql_gt (array_length (w_node_types r) 1) 0)
        then Some (StorageError ''telemetry_workflows_node_types_not_empty'')
      else if \<not> jsonb_typeof (w_sanitized_workflow r) = ''object''
        then Some (StorageError ''telemetry_workflows_sanitized_workflow_not_empty'')
      else if \<not> 16 \<le> length (w_user_id r)
        then Some (StorageError ''telemetry_workflows_user_id_length'')
      else if \<not> length (w_workflow_hash r) = 64
        then Some (StorageError ''telemetry_workflows_workflow_hash_length'')
      else None)"

definition fit_telemetry_workflows_row ::
  "telemetry_workflows_row \<Rightarrow> error + telemetry_workflows_row" where
  "fit_telemetry_workflows_row r =
     and_then (assign_varchar 64 (w_user_id r)) (\<lambda>u'.
     and_then (assign_varchar 64 (w_workflow_hash r)) (\<lambda>h'.
     and_then (assign_varchar 20 (w_complexity r)) (\<lambda>c'.
       let r' = r\<lparr>w_user_id := u', w_workflow_hash := h', w_complexity := c'\<rparr> in
       case check_telemetry_workflows_row r' of Some err \<Rightarrow> Inl err | None \<Rightarrow> Inr r')))"

definition unique_hash_user :: "telemetry_workflows_row \<Rightarrow> string \<times> string" where
  "unique_hash_user r = (w_workflow_hash r, w_user_id r)"

text \<open>
  \<^verbatim>\<open>INSERT INTO telemetry_workflows (...) VALUES (...) [ON CONFLICT (workflow_hash,
  user_id) DO NOTHING] RETURNING id\<close>. With the conflict clause, a row whose pair is
  already stored is not inserted, no trigger runs and no id is returned; without it the
  unique constraint is violated.
\<close>

definition insert_into_telemetry_workflows ::
  "session \<Rightarrow> bool \<Rightarrow> workflow_values \<Rightarrow> db \<Rightarrow> error + (uuid option \<times> db)" where
  "insert_into_telemetry_workflows ses on_conflict_do_nothing v d =
     and_then
       (fit_telemetry_workflows_row
          \<lparr>w_id = gen ses 0, w_user_id = p_user_id v, w_workflow_hash = p_workflow_hash v,
           w_node_count = p_node_count v, w_node_types = p_node_types v,
           w_has_trigger = p_has_trigger v, w_has_webhook = p_has_webhook v,
           w_complexity = p_complexity v, w_sanitized_workflow = p_sanitized_workflow v,
           w_created_at = now ses\<rparr>)
       (\<lambda>r. if unique_hash_user r \<in> unique_hash_user ` set (telemetry_workflows d)
            then (if on_conflict_do_nothing then Inr (None, d)
                  else Inl (StorageError ''telemetry_workflows_unique_hash_user''))
            else if w_id r \<in> w_id ` set (telemetry_workflows d)
            then Inl (StorageError ''telemetry_workflows_pkey'')
            else and_then
                   (audit_telemetry_changes ses 1 ''INSERT'' ''telemetry_workflows''
                      (d\<lparr>telemetry_workflows := telemetry_workflows d @ [r]\<rparr>))
                   (\<lambda>d'. Inr (Some (w_id r), d')))"

text \<open>\<^verbatim>\<open>insert_telemetry_workflow\<close> (lines 256 to 308), SECURITY DEFINER as well.\<close>

definition insert_telemetry_workflow ::
  "session \<Rightarrow> workflow_values \<Rightarrow> db \<Rightarrow> error + (uuid option \<times> db)" where
  "insert_telemetry_workflow ses v d =
     (if length (p_user_id v) < 16
        then Inl (ValidationError ''user_id must be at least 16 characters'')
      else if length (p_workflow_hash v) \<noteq> 64
        then Inl (ValidationError ''workflow_hash must be exactly 64 characters'')
      else if p_node_count v \<le> 0
        then Inl (ValidationError ''node_count must be positive'')
      else if if_taken (sql_eq (array_length (p_node_types v) 1) 0)
        then Inl (ValidationError ''node_types cannot be empty'')
      else if p_complexity v \<notin> {''simple'', ''medium'', ''complex''}
        then Inl (ValidationError ''complexity must be simple, medium, or complex'')
      else if jsonb_typeof (p_sanitized_workflow v) \<noteq> ''object''
        then Inl (ValidationError ''sanitized_workflow must be a JSON object'')
      else insert_into_telemetry_workflows ses True v d)"

definition select_from_telemetry_workflows ::
  "(telemetry_workflows_row \<Rightarrow> bool) \<Rightarrow> db \<Rightarrow> telemetry_workflows_row list" where
  "select_from_telemetry_workflows cond d = filter cond (telemetry_workflows d)"

definition delete_from_telemetry_workflows ::
  "session \<Rightarrow> nat \<Rightarrow> (telemetry_workflows_row \<Rightarrow> bool) \<Rightarrow> db \<Rightarrow> error + (nat \<times> db)" where
  "delete_from_telemetry_workflows ses k cond d =
     (let n = length (filter cond (telemetry_workflows d)) in
      and_then
        (for_each_row ses k ''DELETE'' ''telemetry_workflows'' n
           (d\<lparr>telemetry_workflows := filter (\<lambda>r. \<not> cond r) (telemetry_workflows d)\<rparr>))
        (\<lambda>d'. Inr (n, d')))"

definition update_telemetry_workflows ::
  "session \<Rightarrow> (telemetry_workflows_row \<Rightarrow> bool)
     \<Rightarrow> (telemetry_workflows_row \<Rightarrow> telemetry_workflows_row) \<Rightarrow> db \<Rightarrow> error + (nat \<times> db)" where
  "update_telemetry_workflows ses cond upd d =
     (let n = length (filter cond (telemetry_workflows d)) in
      and_then (fit_each fit_telemetry_workflows_row cond upd (telemetry_workflows d)) (\<lambda>rs.
        if \<not> distinct (map w_id rs) then Inl (StorageError ''telemetry_workflows_pkey'')
        else if \<not> distinct (map unique_hash_user rs)
          then Inl (StorageError ''telemetry_workflows_unique_hash_user'')
        else and_then
               (for_each_row ses 0 ''UPDATE'' ''telemetry_workflows'' n
                  (d\<lparr>telemetry_workflows := rs\<rparr>))
               (\<lambda>d'. Inr (n, d'))))"

subsection \<open>Statements of a client\<close>

text \<open>
  What a client sends to the two tables through the API, as the scripts of the repository
  do (\<^verbatim>\<open>.from('telemetry_events').select/insert/delete\<close>). The statement runs
  under the role of the session. The condition of a statement is its
  \<^verbatim>\<open>WHERE\<close> clause, which reads columns of the row
  (\<^verbatim>\<open>.delete().eq('user_id', ...)\<close>), so an UPDATE or a DELETE needs the SELECT
  privilege beside its own; an INSERT returns no column.
\<close>

datatype statement =
    Select_events "telemetry_events_row \<Rightarrow> bool"
  | Insert_event string string jsonb
  | Update_events "telemetry_events_row \<Rightarrow> bool" "telemetry_events_row \<Rightarrow> telemetry_events_row"
  | Delete_events "telemetry_events_row \<Rightarrow> bool"
  | Select_workflows "telemetry_workflows_row \<Rightarrow> bool"
  | Insert_workflow workflow_values
  | Update_workflows "telemetry_workflows_row \<Rightarrow> bool"
      "telemetry_workflows_row \<Rightarrow> telemetry_workflows_row"
  | Delete_workflows "telemetry_workflows_row \<Rightarrow> bool"

datatype answer =
    Event_rows "telemetry_events_row list"
  | Workflow_rows "telemetry_workflows_row list"
  | Row_count nat


fun table_of :: "statement \<Rightarrow> string" where
  "table_of (Select_events c) = ''telemetry_events''"
| "table_of (Insert_event u e p) = ''telemetry_events''"
| "table_of (Update_events c f) = ''telemetry_events''"
| "table_of (Delete_events c) = ''telemetry_events''"
| "table_of (Select_workflows c) = ''telemetry_workflows''"
| "table_of (Insert_workflow v) = ''telemetry_workflows''"
| "table_of (Update_workflows c f) = ''telemetry_workflows''"
| "table_of (Delete_workflows c) = ''telemetry_workflows''"

fun run :: "session \<Rightarrow> statement \<Rightarrow> db \<Rightarrow> error + (answer \<times> db)" where
  "run ses (Select_events c) d = Inr (Event_rows (select_from_telemetry_events c d), d)"
| "run ses (Insert_event u e p) d =
     and_then (insert_into_telemetry_events ses u e p d) (\<lambda>(i, d'). Inr (Row_count 1, d'))"
| "run ses (Update_events c f) d =
     and_then (update_telemetry_events ses c f d) (\<lambda>(n, d'). Inr (Row_count n, d'))"
| "run ses (Delete_events c) d =
     and_then (delete_from_telemetry_events ses 0 c d) (\<lambda>(n, d'). Inr (Row_count n, d'))"
| "run ses (Select_workflows c) d = Inr (Workflow_rows (select_from_telemetry_workflows c d), d)"
| "run ses (Insert_workflow v) d =
     and_then (insert_into_telemetry_workflows ses False v d) (\<lambda>(i, d'). Inr (Row_count 1, d'))"
| "run ses (Update_workflows c f) d =
     and_then (update_telemetry_workflows ses c f d) (\<lambda>(n, d'). Inr (Row_count n, d'))"
| "run ses (Delete_workflows c) d =
     and_then (delete_from_telemetry_workflows ses 0 c d) (\<lambda>(n, d'). Inr (Row_count n, d'))"

fun privileges_of :: "statement \<Rightarrow> command list" where
  "privileges_of (Select_events c) = [SELECT]"
| "privileges_of (Insert_event u e p) = [INSERT]"
| "privileges_of (Update_events c f) = [UPDATE, SELECT]"
| "privileges_of (Delete_events c) = [DELETE, SELECT]"
| "privileges_of (Select_workflows c) = [SELECT]"
| "privileges_of (Insert_workflow v) = [INSERT]"
| "privileges_of (Update_workflows c f) = [UPDATE, SELECT]"
| "privileges_of (Delete_workflows c) = [DELETE, SELECT]"

text \<open>The answer of a statement that sees no row.\<close>

fun no_rows :: "statement \<Rightarrow> answer" where
  "no_rows (Select_events c) = Event_rows []"
| "no_rows (Select_workflows c) = Workflow_rows []"
| "no_rows st = Row_count 0"

definition execute :: "session \<Rightarrow> statement \<Rightarrow> db \<Rightarrow> error + (answer \<times> db)" where
  "execute ses st d =
     as_role ses d (privileges_of st) (table_of st) (Inr (no_rows st, d)) (run ses st d)"

text \<open>The database after an attempt: the new one, or the old one when the attempt failed.\<close>

definition db_after :: "error + ('a \<times> db) \<Rightarrow> db \<Rightarrow> db" where
  "db_after res d = (case res of Inl err \<Rightarrow> d | Inr (x, d') \<Rightarrow> d')"

subsection \<open>Statistics\<close>

text \<open>
  \<^verbatim>\<open>get_telemetry_stats(start_date, end_date)\<close> (lines 311 to 351), SECURITY
  DEFINER. An argument left out is \<open>None\<close> and takes its default. The result is the
  list of its five rows.
\<close>

definition get_telemetry_stats ::
  "session \<Rightarrow> timestamptz option \<Rightarrow> timestamptz option \<Rightarrow> db \<Rightarrow> (string \<times> int) list" where
  "get_telemetry_stats ses start_date end_date d =
     (let start_date' = (case start_date of None \<Rightarrow> minus_interval_30_days (now ses) | Some t \<Rightarrow> t);
          end_date' = (case end_date of None \<Rightarrow> now ses | Some t \<Rightarrow> t);
          ev = filter (\<lambda>r. start_date' \<le> e_created_at r \<and> e_created_at r \<le> end_date')
                 (telemetry_events d);
          wf = filter (\<lambda>r. start_date' \<le> w_created_at r \<and> w_created_at r \<le> end_date')
                 (telemetry_workflows d)
      in [(''total_events'', int (length ev)),
          (''total_workflows'', int (length wf)),
          (''unique_users'', int (length (remdups (map e_user_id ev @ map w_user_id wf)))),
          (''events_today'',
             int (length (filter (\<lambda>r. DATE (e_created_at r) = CURRENT_DATE ses)
                            (telemetry_events d)))),
          (''workflows_today'',
             int (length (filter (\<lambda>r. DATE (w_created_at r) = CURRENT_DATE ses)
                            (telemetry_workflows d))))])"

subsection \<open>Retention\<close>

text \<open>
  \<^verbatim>\<open>cleanup_old_telemetry_data()\<close> (lines 358 to 386). It is not SECURITY DEFINER,
  so its statements run under the role of the caller: the two DELETE statements, which
  read \<open>created_at\<close>, and the INSERT into the audit log. The DELETE statements fire
  the row trigger for each row they delete.
\<close>

definition cleanup_old_telemetry_data :: "session \<Rightarrow> db \<Rightarrow> error + (int \<times> db)" where
  "cleanup_old_telemetry_data ses d =
     (let cutoff_date = minus_interval_2_years (now ses) in
      and_then
        (as_role ses d [DELETE, SELECT] ''telemetry_events'' (Inr (0, d))
           (delete_from_telemetry_events ses 0 (\<lambda>r. e_created_at r < cutoff_date) d))
        (\<lambda>(deleted_events, d1).
      and_then
        (as_role ses d1 [DELETE, SELECT] ''telemetry_workflows'' (Inr (0, d1))
           (delete_from_telemetry_workflows ses deleted_events
              (\<lambda>r. w_created_at r < cutoff_date) d1))
        (\<lambda>(deleted_workflows, d2).
      and_then
        (as_role ses d2 [INSERT] ''telemetry_audit_log'' (Inl PermissionDenied)
           (insert_into_telemetry_audit_log ses
              [(deleted_events + deleted_workflows, ''DELETE'', ''telemetry_events'',
                VInteger (int deleted_events), Some ''system'',
                Some (JObject [(''cutoff_date'', JString (timestamptz_out cutoff_date))])),
               (deleted_events + deleted_workflows + 1, ''DELETE'', ''telemetry_workflows'',
                VInteger (int deleted_workflows), Some ''system'',
                Some (JObject [(''cutoff_date'', JString (timestamptz_out cutoff_date))]))]
              d2))
        (\<lambda>d3. Inr (int deleted_events + int deleted_workflows, d3)))))"

subsection \<open>Partitions\<close>

text \<open>
  \<^verbatim>\<open>CREATE TABLE IF NOT EXISTS name PARTITION OF parent FOR VALUES FROM (lo) TO
  (hi)\<close>. When a relation of that name exists the statement does nothing. Otherwise
  the parent must exist and be a partitioned table, or the statement is rejected
  (SQLSTATE 42P01 and 42P17); the range must not be empty and must not overlap the range of
  a partition of the same parent (42P17 again). Then the partition is created.
\<close>

definition create_table_if_not_exists_partition_of ::
  "string \<Rightarrow> string \<Rightarrow> date \<Rightarrow> date \<Rightarrow> db \<Rightarrow> error + db" where
  "create_table_if_not_exists_partition_of name parent lo hi d =
     (if name \<in> set (relations d) then Inr d
      else if parent \<notin> set (relations d)
        then Inl (StorageError (''relation '' @ parent @ '' does not exist''))
      else if parent \<notin> set (partitioned d)
        then Inl (StorageError (parent @ '' is not partitioned''))
      else if \<not> lo < hi
        then Inl (StorageError ''empty range bound specified for partition'')
      else if list_ex (\<lambda>p. p_parent p = parent \<and> lo < p_to p \<and> p_from p < hi) (partitions d)
        then Inl (StorageError ''partition would overlap'')
      else Inr (d\<lparr>relations := relations d @ [name],
                 partitions := partitions d @
                   [\<lparr>p_name = name, p_parent = parent, p_from = lo, p_to = hi\<rparr>]\<rparr>))"

text \<open>\<^verbatim>\<open>create_telemetry_partition\<close> (lines 135 to 164).\<close>

definition create_telemetry_partition :: "string \<Rightarrow> date \<Rightarrow> db \<Rightarrow> error + db" where
  "create_telemetry_partition table_name start_date d =
     (let end_date = plus_interval_1_month start_date;
          partition_name = table_name @ ''_'' @ to_char_YYYY_MM start_date
      in and_then
           (if table_name = ''telemetry_events''
            then create_table_if_not_exists_partition_of partition_name table_name
                   start_date end_date d
            else Inr d)
           (\<lambda>d1. if table_name = ''telemetry_workflows''
                 then create_table_if_not_exists_partition_of partition_name table_name
                        start_date end_date d1
                 else Inr d1))"

subsection \<open>Sessions and databases of the examples\<close>

definition anonymous_session :: session where
  "anonymous_session = \<lparr>role = ''anon'', now = ((2025, 6, 1), 0), gen = (\<lambda>k. 7 + k)\<rparr>"

definition service_session :: session where
  "service_session = \<lparr>role = ''service_role'', now = ((2025, 6, 1), 0), gen = (\<lambda>k. 7 + k)\<rparr>"

definition owner_session :: session where
  "owner_session = \<lparr>role = ''none'', now = ((2025, 6, 1), 0), gen = (\<lambda>k. 7 + k)\<rparr>"

text \<open>
  The database after the script, the tables empty. The script creates the three tables
  without \<^verbatim>\<open>PARTITION BY\<close> (lines 48, 63 and 87), so none is partitioned and there
  is no partition. The privileges are those the scripts of the repository rely on: the
  anonymous role inserts into the two tables, the service role does everything on the three.
\<close>

definition empty_db :: db where
  "empty_db =
     \<lparr>telemetry_events = [], telemetry_workflows = [], telemetry_audit_log = [],
      relations = [''telemetry_events'', ''telemetry_workflows'', ''telemetry_audit_log'',
                   ''telemetry_event_stats'', ''telemetry_workflow_stats'',
                   ''telemetry_daily_activity''],
      partitioned = [], partitions = [],
      grants = [(''anon'', INSERT, ''telemetry_events''), (''anon'', INSERT, ''telemetry_workflows'')]
               @ concat (map (\<lambda>t. map (\<lambda>c. (''service_role'', c, t)) [SELECT, INSERT, UPDATE, DELETE])
                           [''telemetry_events'', ''telemetry_workflows'', ''telemetry_audit_log''])\<rparr>"

definition old_event :: telemetry_events_row where
  "old_event = \<lparr>e_id = 1, e_user_id = ''aaaaaaaaaaaaaaaaaaaa'', e_event = ''tool_usage'',
                 e_properties = JObject [(''tool'', JString ''slack'')],
                 e_created_at = ((2020, 1, 1), 0)\<rparr>"

definition todays_event :: telemetry_events_row where
  "todays_event = \<lparr>e_id = 2, e_user_id = ''aaaaaaaaaaaaaaaaaaaa'', e_event = ''tool_usage'',
                    e_properties = JObject [(''tool'', JString ''slack'')],
                    e_created_at = ((2025, 6, 1), 0)\<rparr>"

definition sample_workflow :: workflow_values where
  "sample_workflow =
     \<lparr>p_user_id = ''aaaaaaaaaaaaaaaaaaaa'', p_workflow_hash = replicate 64 (CHR ''0''),
      p_node_count = 2, p_node_types = [''webhook'', ''http''], p_has_trigger = True,
      p_has_webhook = True, p_complexity = ''simple'',
      p_sanitized_workflow = JObject [(''nodes'', JArray []), (''connections'', JObject [])]\<rparr>"

definition stored_workflow :: "uuid \<Rightarrow> timestamptz \<Rightarrow> workflow_values \<Rightarrow> telemetry_workflows_row" where
  "stored_workflow i t v =
     \<lparr>w_id = i, w_user_id = p_user_id v, w_workflow_hash = p_workflow_hash v,
      w_node_count = p_node_count v, w_node_types = p_node_types v,
      w_has_trigger = p_has_trigger v, w_has_webhook = p_has_webhook v,
      w_complexity = p_complexity v, w_sanitized_workflow = p_sanitized_workflow v,
      w_created_at = t\<rparr>"

section \<open>Properties\<close>

subsection \<open>Helper facts\<close>

lemma and_then_simps [simp]:
  "and_then (Inl err) f = Inl err"
  "and_then (Inr v) f = f v"
  by (simp_all add: and_then_def)

lemma and_then_InrD: "and_then x f = Inr y \<Longrightarrow> \<exists>v. x = Inr v \<and> f v = Inr y"
  by (cases x) simp_all

text \<open>
The trigger either does nothing (an insert under the role \<open>anon\<close>) or fails: the
boolean it supplies for \<open>record_count\<close> is not accepted by the INTEGER column.
\<close>

lemma audit_trigger_result:
  "audit_telemetry_changes ses k op t d =
     (if op = ''INSERT'' \<and> role ses = ''anon'' then Inr d
      else Inl (StorageError ''column record_count is of type integer but expression is of type boolean''))"
  by (simp add: audit_telemetry_changes_def)

lemma for_each_row_result:
  "for_each_row ses k op t n d =
     (if n = 0 \<or> (op = ''INSERT'' \<and> role ses = ''anon'') then Inr d
      else Inl (StorageError ''column record_count is of type integer but expression is of type boolean''))"
  by (induction n arbitrary: k) (auto simp: audit_trigger_result)

lemma assign_varchar_fits: "length s \<le> n \<Longrightarrow> assign_varchar n s = Inr s"
  by (simp add: assign_varchar_def)

lemma decimal_64: "decimal 64 = ''64''"
  by (simp add: decimal.simps digit_def)

lemma node_types_never_rejected:
  "\<not> if_taken (sql_eq (array_length xs dim) 0)"
  "\<not> check_violated (sql_gt (array_length xs dim) 0)"
  by (simp_all add: if_taken_def check_violated_def sql_eq_def sql_gt_def array_length_def)

lemma one_row_per_key:
  "distinct (map f xs) \<Longrightarrow> k \<in> f ` set xs \<Longrightarrow> length (filter (\<lambda>r. f r = k) xs) = 1"
proof (induction xs)
  case Nil
  then show ?case by simp
next
  case (Cons x xs)
  show ?case
  proof (cases "f x = k")
    case True
    with Cons.prems have "k \<notin> f ` set xs" by auto
    then have "filter (\<lambda>r. f r = k) xs = []" by (auto simp: filter_empty_conv)
    with True show ?thesis by simp
  next
    case False
    with Cons show ?thesis by auto
  qed
qed

lemma no_row_for_new_key:
  "k \<notin> f ` set xs \<Longrightarrow> filter (\<lambda>r. f r = k) xs = []"
  by (auto simp: filter_empty_conv)

lemma fit_accepted_workflow:
  assumes "16 \<le> length (w_user_id r)" and "length (w_user_id r) \<le> 64"
    and "length (w_workflow_hash r) = 64" and "0 < w_node_count r"
    and "w_complexity r \<in> {''simple'', ''medium'', ''complex''}"
    and "jsonb_typeof (w_sanitized_workflow r) = ''object''"
  shows "fit_telemetry_workflows_row r = Inr r"
proof -
  from assms(5) have "length (w_complexity r) \<le> 20" by auto
  with assms show ?thesis
    by (simp add: fit_telemetry_workflows_row_def assign_varchar_fits
        check_telemetry_workflows_row_def node_types_never_rejected)
qed

lemma audit_insert_keeps_tables:
  "insert_into_telemetry_audit_log ses vs d = Inr d' \<Longrightarrow>
     telemetry_events d' = telemetry_events d \<and> telemetry_workflows d' = telemetry_workflows d"
proof (induction vs arbitrary: d)
  case Nil
  then show ?case by simp
next
  case (Cons v vs)
  obtain k op tn rc ur md where v: "v = (k, op, tn, rc, ur, md)" by (cases v) auto
  from Cons.prems show ?case
    unfolding v
    by (auto simp: and_then_def split: sum.splits if_splits dest!: Cons.IH)
qed

lemma nothing_filtered: "length (filter P xs) = 0 \<Longrightarrow> filter (\<lambda>r. \<not> P r) xs = xs"
  by (induction xs) (auto split: if_splits)

lemma delete_from_telemetry_events_result:
  "delete_from_telemetry_events ses k cond d =
     (if filter cond (telemetry_events d) = [] then Inr (0, d)
      else Inl (StorageError ''column record_count is of type integer but expression is of type boolean''))"
  by (auto simp: delete_from_telemetry_events_def Let_def for_each_row_result nothing_filtered)

lemma delete_from_telemetry_workflows_result:
  "delete_from_telemetry_workflows ses k cond d =
     (if filter cond (telemetry_workflows d) = [] then Inr (0, d)
      else Inl (StorageError ''column record_count is of type integer but expression is of type boolean''))"
  by (auto simp: delete_from_telemetry_workflows_def Let_def for_each_row_result nothing_filtered)

lemma delete_events_as_role:
  "as_role ses d cs t (Inr (0, d)) (delete_from_telemetry_events ses k cond d) = Inr (n, d1)
     \<Longrightarrow> d1 = d"
  by (auto simp: as_role_def delete_from_telemetry_events_result split: access.splits if_splits)

lemma delete_workflows_as_role:
  "as_role ses d cs t (Inr (0, d)) (delete_from_telemetry_workflows ses k cond d) = Inr (n, d1)
     \<Longrightarrow> d1 = d"
  by (auto simp: as_role_def delete_from_telemetry_workflows_result split: access.splits if_splits)

lemma audit_as_role:
  "as_role ses d cs t (Inl PermissionDenied) (insert_into_telemetry_audit_log ses vs d) = Inr d3
     \<Longrightarrow> telemetry_events d3 = telemetry_events d \<and> telemetry_workflows d3 = telemetry_workflows d"
  by (auto simp: as_role_def split: access.splits dest: audit_insert_keeps_tables)

lemma no_events_stored: "telemetry_events empty_db = []"
  by (simp add: empty_db_def)


lemma service_role_policy:
  "policy_applies ''service_role'' c t \<longleftrightarrow>
     t = ''telemetry_events'' \<or> t = ''telemetry_workflows'' \<or> t = ''telemetry_audit_log''"
  by (auto simp: policy_applies_def policies_def)

lemma maintenance_access:
  assumes "role ses = ''none'' \<or> role ses = ''service_role''
           \<and> list_all (\<lambda>(c, t). granted d ''service_role'' c t)
                 [(DELETE, ''telemetry_events''), (SELECT, ''telemetry_events''),
                  (DELETE, ''telemetry_workflows''), (SELECT, ''telemetry_workflows''),
                  (INSERT, ''telemetry_audit_log'')]"
  shows "access_of ses d [DELETE, SELECT] ''telemetry_events'' = With_rows"
    and "access_of ses d [DELETE, SELECT] ''telemetry_workflows'' = With_rows"
    and "access_of ses d [INSERT] ''telemetry_audit_log'' = With_rows"
  using assms by (auto simp: access_of_def service_role_policy)

lemma create_telemetry_partition_result:
  assumes "t = ''telemetry_events'' \<or> t = ''telemetry_workflows''"
  shows "create_telemetry_partition t sd d =
           create_table_if_not_exists_partition_of (t @ ''_'' @ to_char_YYYY_MM sd) t sd
             (plus_interval_1_month sd) d"
  using assms
  by (auto simp: create_telemetry_partition_def Let_def and_then_def split: sum.splits)

lemma month_later: "sd < plus_interval_1_month sd"
  by (cases sd) (simp add: plus_interval_1_month_def less_prod_def)

lemma january_2025: "to_char_YYYY_MM (2025, Suc 0, dd) = ''2025_01''"
  by (simp add: to_char_YYYY_MM_def zero_padded_def decimal.simps digit_def)

text \<open>
The cutoff of a cleanup on 2025-06-01, as the metadata of the audit log would hold it.
\<close>

lemma cutoff_text: "timestamptz_out ((2023, 6, 1), 0) = ''2023-06-01T00:00:00+00:00''"
  by (simp add: timestamptz_out_def fraction_out_def zero_padded_def decimal.simps digit_def)

subsection \<open>Access of the anonymous role\<close>




text \<open>
With the tables as the script leaves them and no privilege granted, the policy for INSERT
is not reached: the anonymous INSERT is refused as well.
\<close>

theorem anonymous_insert_without_the_privilege:
  "execute anonymous_session
       (Insert_event ''aaaaaaaaaaaaaaaaaaaa'' ''tool_usage'' (JObject [(''tool'', JString ''slack'')]))
       (empty_db\<lparr>grants := []\<rparr>)
     = Inl PermissionDenied"
  by (simp add: execute_def as_role_def access_of_def granted_def anonymous_session_def
      empty_db_def)

text \<open>
\<^verbatim>\<open>get_telemetry_stats\<close> runs as the owner and does not look at the caller: an
anonymous session that calls it reads the counts of both tables.
\<close>

theorem anonymous_reads_statistics:
  "get_telemetry_stats anonymous_session None None (empty_db\<lparr>telemetry_events := [todays_event]\<rparr>)
     = [(''total_events'', 1), (''total_workflows'', 0), (''unique_users'', 1),
        (''events_today'', 1), (''workflows_today'', 0)]"
  by (simp add: get_telemetry_stats_def Let_def DATE_def CURRENT_DATE_def
      minus_interval_30_days_def previous_day_def days_in_month_def leap_year_def
      eval_nat_numeral anonymous_session_def empty_db_def todays_event_def)

subsection \<open>Audit of privileged changes\<close>


text \<open>
Under any role but \<open>anon\<close>, no call of \<^verbatim>\<open>insert_telemetry_event\<close> and no
INSERT into \<^verbatim>\<open>telemetry_workflows\<close> succeeds: where the row is accepted, the
audit trigger raises.
\<close>

theorem change_by_other_role_is_rejected:
  assumes "role ses \<noteq> ''anon''"
  shows "(\<exists>err. insert_telemetry_event ses u e p d = Inl err)
       \<and> (\<exists>err. insert_into_telemetry_workflows ses False v d = Inl err)"
proof
  show "\<exists>err. insert_telemetry_event ses u e p d = Inl err"
    using assms
    by (auto simp: insert_telemetry_event_def insert_into_telemetry_events_def
        audit_trigger_result and_then_def split: sum.splits)
  show "\<exists>err. insert_into_telemetry_workflows ses False v d = Inl err"
    using assms
    by (auto simp: insert_into_telemetry_workflows_def
        audit_trigger_result and_then_def split: sum.splits)
qed

text \<open>
The owner inserts an event and the service role a workflow.
\<close>

theorem change_by_other_role_is_rejected_witness:
  "(\<exists>err. insert_telemetry_event owner_session ''aaaaaaaaaaaaaaaaaaaa'' ''tool_usage'' (JObject [])
            empty_db = Inl err)
   \<and> (\<exists>err. insert_into_telemetry_workflows service_session False sample_workflow empty_db = Inl err)"
  using change_by_other_role_is_rejected
          [of owner_session "''aaaaaaaaaaaaaaaaaaaa''" "''tool_usage''" "JObject []" empty_db]
        change_by_other_role_is_rejected
          [where ses = service_session and v = sample_workflow and d = empty_db]
  by (simp add: owner_session_def service_session_def)

subsection \<open>Repeated workflow submissions\<close>

text \<open>
Claim C3, at the input where the code departs from it. The service role submits the
workflow of the examples to the empty table, as the validation script does. The insert
fires the row trigger, which raises: the call fails and the database is as before, so the
same submission again fails in the same way and the table holds no row with this
\<open>(workflow_hash, user_id)\<close>. The claim expects exactly one row and a second call that
succeeds without an id.
\<close>

theorem service_role_workflow_is_not_stored:
  "insert_telemetry_workflow service_session sample_workflow empty_db
     = Inl (StorageError
              ''column record_count is of type integer but expression is of type boolean'')
   \<and> db_after (insert_telemetry_workflow service_session sample_workflow empty_db) empty_db
     = empty_db
   \<and> telemetry_workflows empty_db = []"
  by (simp add: insert_telemetry_workflow_def insert_into_telemetry_workflows_def
      fit_telemetry_workflows_row_def assign_varchar_def check_telemetry_workflows_row_def
      node_types_never_rejected audit_trigger_result unique_hash_user_def db_after_def
      service_session_def sample_workflow_def empty_db_def)

text \<open>
What the claim says does hold for an anonymous caller. An anonymous client submits a
workflow that passes the checks of \<^verbatim>\<open>insert_telemetry_workflow\<close>, to a table that
satisfies its unique constraint, with a generated id that is not taken. The call succeeds.
The same submission again, from any session, succeeds too, returns no id (NULL) and
changes nothing; the table holds exactly one row with this \<open>(workflow_hash, user_id)\<close>.
\<close>

theorem insert_telemetry_workflow_twice:
  assumes "role ses = ''anon''"
    and "16 \<le> length (p_user_id v)" and "length (p_user_id v) \<le> 64"
    and "length (p_workflow_hash v) = 64" and "0 < p_node_count v"
    and "p_complexity v \<in> {''simple'', ''medium'', ''complex''}"
    and "jsonb_typeof (p_sanitized_workflow v) = ''object''"
    and "gen ses 0 \<notin> w_id ` set (telemetry_workflows d)"
    and "distinct (map unique_hash_user (telemetry_workflows d))"
  shows "\<exists>r d1. insert_telemetry_workflow ses v d = Inr (r, d1)
           \<and> insert_telemetry_workflow ses' v d1 = Inr (None, d1)
           \<and> length (filter (\<lambda>r. unique_hash_user r = (p_workflow_hash v, p_user_id v))
                       (telemetry_workflows d1)) = 1"
proof -
  have fit: "fit_telemetry_workflows_row (stored_workflow i t v) = Inr (stored_workflow i t v)" for i t
    using assms(2-7) by (intro fit_accepted_workflow) (simp_all add: stored_workflow_def)
  have key: "unique_hash_user (stored_workflow i t v) = (p_workflow_hash v, p_user_id v)" for i t
    by (simp add: unique_hash_user_def stored_workflow_def)
  have call: "insert_telemetry_workflow s v x =
      insert_into_telemetry_workflows s True v x" for s x
    using assms(2-7) by (auto simp: insert_telemetry_workflow_def node_types_never_rejected)
  have ins: "insert_into_telemetry_workflows s True v x =
      (if (p_workflow_hash v, p_user_id v) \<in> unique_hash_user ` set (telemetry_workflows x)
       then Inr (None, x)
       else if gen s 0 \<in> w_id ` set (telemetry_workflows x)
       then Inl (StorageError ''telemetry_workflows_pkey'')
       else and_then
              (audit_telemetry_changes s 1 ''INSERT'' ''telemetry_workflows''
                 (x\<lparr>telemetry_workflows := telemetry_workflows x @ [stored_workflow (gen s 0) (now s) v]\<rparr>))
              (\<lambda>d'. Inr (Some (gen s 0), d')))" for s x
    using fit [of "gen s 0" "now s"] key [of "gen s 0" "now s"]
    by (simp add: insert_into_telemetry_workflows_def stored_workflow_def)
  show ?thesis
  proof (cases "(p_workflow_hash v, p_user_id v) \<in> unique_hash_user ` set (telemetry_workflows d)")
    case True
    then have "insert_telemetry_workflow ses v d = Inr (None, d)"
      and "insert_telemetry_workflow ses' v d = Inr (None, d)"
      by (simp_all add: call ins)
    moreover have "length (filter (\<lambda>r. unique_hash_user r = (p_workflow_hash v, p_user_id v))
                       (telemetry_workflows d)) = 1"
      using assms(9) True by (rule one_row_per_key)
    ultimately show ?thesis by blast
  next
    case False
    let ?d1 = "d\<lparr>telemetry_workflows :=
                  telemetry_workflows d @ [stored_workflow (gen ses 0) (now ses) v]\<rparr>"
    from False assms(1,8) have "insert_telemetry_workflow ses v d = Inr (Some (gen ses 0), ?d1)"
      by (simp add: call ins audit_trigger_result)
    moreover have "insert_telemetry_workflow ses' v ?d1 = Inr (None, ?d1)"
      by (simp add: call ins key)
    moreover have "length (filter (\<lambda>r. unique_hash_user r = (p_workflow_hash v, p_user_id v))
                       (telemetry_workflows ?d1)) = 1"
      using no_row_for_new_key [OF False] by (simp add: key)
    ultimately show ?thesis by blast
  qed
qed

text \<open>
The workflow of the examples, submitted twice to the empty database.
\<close>

theorem insert_telemetry_workflow_twice_witness:
  "\<exists>r d1. insert_telemetry_workflow anonymous_session sample_workflow empty_db = Inr (r, d1)
      \<and> insert_telemetry_workflow anonymous_session sample_workflow d1 = Inr (None, d1)
      \<and> length (filter (\<lambda>r. unique_hash_user r
                           = (p_workflow_hash sample_workflow, p_user_id sample_workflow))
                  (telemetry_workflows d1)) = 1"
  using insert_telemetry_workflow_twice [of anonymous_session sample_workflow empty_db anonymous_session]
  by (simp add: anonymous_session_def sample_workflow_def empty_db_def)

subsection \<open>Retention\<close>

text \<open>
Claim C4, at the input where the code departs from it. The table holds one event of
2020-01-01 and the job of the owner runs on 2025-06-01, so the event is older than the cutoff
2023-06-01. The DELETE fires the row trigger, whose INSERT into the audit log raises; the
function ends with that error and the event is still stored. The claim expects the event
to be deleted and 1 to be returned.
\<close>

theorem cleanup_fails_on_an_old_event:
  "cleanup_old_telemetry_data owner_session (empty_db\<lparr>telemetry_events := [old_event]\<rparr>)
     = Inl (StorageError
              ''column record_count is of type integer but expression is of type boolean'')
   \<and> old_event \<in> set (telemetry_events
        (db_after (cleanup_old_telemetry_data owner_session
                     (empty_db\<lparr>telemetry_events := [old_event]\<rparr>))
           (empty_db\<lparr>telemetry_events := [old_event]\<rparr>)))
   \<and> e_created_at old_event < minus_interval_2_years (now owner_session)"
  by (simp add: cleanup_old_telemetry_data_def as_role_def access_of_def
      delete_from_telemetry_events_def for_each_row_result db_after_def
      minus_interval_2_years_def days_in_month_def leap_year_def
      owner_session_def old_event_def empty_db_def)

text \<open>
Claim C7, at the input where the code departs from it. The table holds one workflow of
2020-01-01 and the service role runs the cleanup on 2025-06-01. The second DELETE fires the
row trigger, which raises, before the summary rows are written: the audit log stays empty.
The claim expects one entry for each of the two tables.
\<close>

theorem cleanup_writes_no_audit_entry_on_an_old_workflow:
  "cleanup_old_telemetry_data service_session
       (empty_db\<lparr>telemetry_workflows := [stored_workflow 1 ((2020, 1, 1), 0) sample_workflow]\<rparr>)
     = Inl (StorageError
              ''column record_count is of type integer but expression is of type boolean'')
   \<and> telemetry_audit_log
        (db_after (cleanup_old_telemetry_data service_session
                     (empty_db\<lparr>telemetry_workflows :=
                        [stored_workflow 1 ((2020, 1, 1), 0) sample_workflow]\<rparr>))
           (empty_db\<lparr>telemetry_workflows :=
              [stored_workflow 1 ((2020, 1, 1), 0) sample_workflow]\<rparr>)) = []"
  by (simp add: cleanup_old_telemetry_data_def as_role_def access_of_def granted_def policy_applies_def
      policies_def delete_from_telemetry_events_def delete_from_telemetry_workflows_def
      for_each_row_result db_after_def minus_interval_2_years_def days_in_month_def
      leap_year_def service_session_def stored_workflow_def empty_db_def)

text \<open>
Whatever the caller and the tables, \<^verbatim>\<open>cleanup_old_telemetry_data\<close> removes no
row: a call that deletes one fails in the audit trigger and is rolled back.
\<close>

theorem cleanup_removes_no_row:
  "telemetry_events (db_after (cleanup_old_telemetry_data ses d) d) = telemetry_events d
   \<and> telemetry_workflows (db_after (cleanup_old_telemetry_data ses d) d) = telemetry_workflows d"
proof (cases "cleanup_old_telemetry_data ses d")
  case (Inl err)
  then show ?thesis by (simp add: db_after_def)
next
  case (Inr r)
  obtain n d3 where r: "r = (n, d3)" by (cases r)
  from Inr [unfolded cleanup_old_telemetry_data_def Let_def r]
  obtain v1 where s1: "as_role ses d [DELETE, SELECT] ''telemetry_events'' (Inr (0, d))
        (delete_from_telemetry_events ses 0
           (\<lambda>r. e_created_at r < minus_interval_2_years (now ses)) d) = Inr v1"
    and rest1: "(case v1 of (deleted_events, d1) \<Rightarrow>
      and_then
        (as_role ses d1 [DELETE, SELECT] ''telemetry_workflows'' (Inr (0, d1))
           (delete_from_telemetry_workflows ses deleted_events
              (\<lambda>r. w_created_at r < minus_interval_2_years (now ses)) d1))
        (\<lambda>(deleted_workflows, d2).
      and_then
        (as_role ses d2 [INSERT] ''telemetry_audit_log'' (Inl PermissionDenied)
           (insert_into_telemetry_audit_log ses
              [(deleted_events + deleted_workflows, ''DELETE'', ''telemetry_events'',
                VInteger (int deleted_events), Some ''system'',
                Some (JObject [(''cutoff_date'',
                   JString (timestamptz_out (minus_interval_2_years (now ses))))])),
               (deleted_events + deleted_workflows + 1, ''DELETE'', ''telemetry_workflows'',
                VInteger (int deleted_workflows), Some ''system'',
                Some (JObject [(''cutoff_date'',
                   JString (timestamptz_out (minus_interval_2_years (now ses))))]))]
              d2))
        (\<lambda>d3. Inr (int deleted_events + int deleted_workflows, d3)))) = Inr (n, d3)"
    by (blast dest: and_then_InrD)
  obtain n1 d1 where v1: "v1 = (n1, d1)" by (cases v1)
  from s1 v1 have d1: "d1 = d" by (auto dest: delete_events_as_role)
  from rest1 [unfolded v1 prod.case]
  obtain v2 where s2: "as_role ses d1 [DELETE, SELECT] ''telemetry_workflows'' (Inr (0, d1))
           (delete_from_telemetry_workflows ses n1
              (\<lambda>r. w_created_at r < minus_interval_2_years (now ses)) d1) = Inr v2"
    and rest2: "(case v2 of (deleted_workflows, d2) \<Rightarrow>
      and_then
        (as_role ses d2 [INSERT] ''telemetry_audit_log'' (Inl PermissionDenied)
           (insert_into_telemetry_audit_log ses
              [(n1 + deleted_workflows, ''DELETE'', ''telemetry_events'',
                VInteger (int n1), Some ''system'',
                Some (JObject [(''cutoff_date'',
                   JString (timestamptz_out (minus_interval_2_years (now ses))))])),
               (n1 + deleted_workflows + 1, ''DELETE'', ''telemetry_workflows'',
                VInteger (int deleted_workflows), Some ''system'',
                Some (JObject [(''cutoff_date'',
                   JString (timestamptz_out (minus_interval_2_years (now ses))))]))]
              d2))
        (\<lambda>d3. Inr (int n1 + int deleted_workflows, d3))) = Inr (n, d3)"
    by (blast dest: and_then_InrD)
  obtain n2 d2 where v2: "v2 = (n2, d2)" by (cases v2)
  from s2 v2 have d2: "d2 = d1" by (auto dest: delete_workflows_as_role)
  from rest2 [unfolded v2 prod.case]
  obtain d3' where s3: "as_role ses d2 [INSERT] ''telemetry_audit_log'' (Inl PermissionDenied)
           (insert_into_telemetry_audit_log ses
              [(n1 + n2, ''DELETE'', ''telemetry_events'',
                VInteger (int n1), Some ''system'',
                Some (JObject [(''cutoff_date'',
                   JString (timestamptz_out (minus_interval_2_years (now ses))))])),
               (n1 + n2 + 1, ''DELETE'', ''telemetry_workflows'',
                VInteger (int n2), Some ''system'',
                Some (JObject [(''cutoff_date'',
                   JString (timestamptz_out (minus_interval_2_years (now ses))))]))]
              d2) = Inr d3'"
    and "Inr (int n1 + int n2, d3') = (Inr (n, d3) :: error + (int \<times> db))"
    by (blast dest: and_then_InrD)
  then have "d3' = d3" by simp
  with audit_as_role [OF s3] have "telemetry_events d3 = telemetry_events d2
      \<and> telemetry_workflows d3 = telemetry_workflows d2"
    by simp
  with d1 d2 Inr r show ?thesis by (simp add: db_after_def)
qed

text \<open>
For the owner, and for the service role with the privileges the function needs,
\<^verbatim>\<open>cleanup_old_telemetry_data\<close> fails whenever an event or a workflow is older than
the cutoff.
\<close>

theorem cleanup_fails_when_a_row_is_old:
  assumes "role ses = ''none'' \<or> role ses = ''service_role''
           \<and> list_all (\<lambda>(c, t). granted d ''service_role'' c t)
                 [(DELETE, ''telemetry_events''), (SELECT, ''telemetry_events''),
                  (DELETE, ''telemetry_workflows''), (SELECT, ''telemetry_workflows''),
                  (INSERT, ''telemetry_audit_log'')]"
    and "list_ex (\<lambda>r. e_created_at r < minus_interval_2_years (now ses)) (telemetry_events d)
         \<or> list_ex (\<lambda>r. w_created_at r < minus_interval_2_years (now ses)) (telemetry_workflows d)"
  shows "cleanup_old_telemetry_data ses d =
           Inl (StorageError
                  ''column record_count is of type integer but expression is of type boolean'')"
  using assms(2)
  by (auto simp: cleanup_old_telemetry_data_def Let_def as_role_def
      maintenance_access [OF assms(1)]
      delete_from_telemetry_events_result delete_from_telemetry_workflows_result
      list_ex_iff filter_empty_conv)

text \<open>
An old event beside an event of today.
\<close>

theorem cleanup_fails_when_a_row_is_old_witness:
  "cleanup_old_telemetry_data service_session (empty_db\<lparr>telemetry_events := [old_event, todays_event]\<rparr>)
     = Inl (StorageError
              ''column record_count is of type integer but expression is of type boolean'')"
  using cleanup_fails_when_a_row_is_old
          [of service_session "empty_db\<lparr>telemetry_events := [old_event, todays_event]\<rparr>"]
  by (simp add: service_session_def empty_db_def granted_def old_event_def todays_event_def
      minus_interval_2_years_def days_in_month_def leap_year_def)

text \<open>
When no row is older than the cutoff, \<^verbatim>\<open>cleanup_old_telemetry_data\<close> run by the
owner, or by the service role with the privileges it needs, returns 0 and writes its two
summary rows, one for each table, with the operation DELETE, the count 0, the role
\<open>system\<close> and the cutoff in the metadata (the two generated ids being new and
different).
\<close>

theorem cleanup_with_nothing_old:
  assumes "role ses = ''none'' \<or> role ses = ''service_role''
           \<and> list_all (\<lambda>(c, t). granted d ''service_role'' c t)
                 [(DELETE, ''telemetry_events''), (SELECT, ''telemetry_events''),
                  (DELETE, ''telemetry_workflows''), (SELECT, ''telemetry_workflows''),
                  (INSERT, ''telemetry_audit_log'')]"
    and "\<not> list_ex (\<lambda>r. e_created_at r < minus_interval_2_years (now ses)) (telemetry_events d)"
    and "\<not> list_ex (\<lambda>r. w_created_at r < minus_interval_2_years (now ses)) (telemetry_workflows d)"
    and "gen ses 0 \<notin> a_id ` set (telemetry_audit_log d)"
    and "gen ses 1 \<notin> a_id ` set (telemetry_audit_log d)"
    and "gen ses 0 \<noteq> gen ses 1"
  shows "cleanup_old_telemetry_data ses d =
           Inr (0, d\<lparr>telemetry_audit_log := telemetry_audit_log d @
                  [\<lparr>a_id = gen ses 0, a_operation = ''DELETE'', a_table_name = ''telemetry_events'',
                    a_record_count = Some 0, a_user_role = Some ''system'', a_ip_address = None,
                    a_metadata = Some (JObject [(''cutoff_date'',
                       JString (timestamptz_out (minus_interval_2_years (now ses))))]),
                    a_created_at = now ses\<rparr>,
                   \<lparr>a_id = gen ses 1, a_operation = ''DELETE'', a_table_name = ''telemetry_workflows'',
                    a_record_count = Some 0, a_user_role = Some ''system'', a_ip_address = None,
                    a_metadata = Some (JObject [(''cutoff_date'',
                       JString (timestamptz_out (minus_interval_2_years (now ses))))]),
                    a_created_at = now ses\<rparr>]\<rparr>)"
proof -
  have e: "filter (\<lambda>r. e_created_at r < minus_interval_2_years (now ses)) (telemetry_events d) = []"
    using assms(2) by (auto simp: list_ex_iff filter_empty_conv)
  have w: "filter (\<lambda>r. w_created_at r < minus_interval_2_years (now ses)) (telemetry_workflows d) = []"
    using assms(3) by (auto simp: list_ex_iff filter_empty_conv)
  show ?thesis
    using assms(4-6)
    by (simp add: cleanup_old_telemetry_data_def Let_def as_role_def
        maintenance_access [OF assms(1)] e w
        delete_from_telemetry_events_result delete_from_telemetry_workflows_result
        assign_varchar_def assign_varchar_opt_def)
qed

text \<open>
Only an event of today is stored.
\<close>

theorem cleanup_with_nothing_old_witness:
  "\<exists>d'. cleanup_old_telemetry_data owner_session (empty_db\<lparr>telemetry_events := [todays_event]\<rparr>)
           = Inr (0, d')
       \<and> map a_table_name (telemetry_audit_log d') = [''telemetry_events'', ''telemetry_workflows'']
       \<and> map a_record_count (telemetry_audit_log d') = [Some 0, Some 0]
       \<and> telemetry_events d' = [todays_event]"
  using cleanup_with_nothing_old
          [of owner_session "empty_db\<lparr>telemetry_events := [todays_event]\<rparr>"]
  by (simp add: owner_session_def empty_db_def todays_event_def
      minus_interval_2_years_def days_in_month_def leap_year_def)

subsection \<open>Inserting events\<close>

text \<open>
Claim C5, at the input where the code departs from it. The service role calls
\<^verbatim>\<open>insert_telemetry_event\<close> with a valid event, as the validation script does
(a user id of 36 characters, the event \<open>function_test\<close>, an object as properties). The
checks of the function pass, the row is accepted, the row trigger runs and raises: the
call fails and no event is stored. The claim expects the event to be stored and its id
returned.
\<close>

theorem service_role_event_is_not_stored:
  "insert_telemetry_event service_session ''validation-test-1700000000000-abc123''
       ''function_test'' (JObject [(''source'', JString ''validation_script'')]) empty_db
     = Inl (StorageError
              ''column record_count is of type integer but expression is of type boolean'')
   \<and> telemetry_events
        (db_after (insert_telemetry_event service_session ''validation-test-1700000000000-abc123''
                     ''function_test'' (JObject [(''source'', JString ''validation_script'')])
                     empty_db) empty_db) = []"
  by (simp add: insert_telemetry_event_def insert_into_telemetry_events_def
      fit_telemetry_events_row_def assign_varchar_def check_telemetry_events_row_def
      audit_trigger_result db_after_def service_session_def empty_db_def)

text \<open>
What the claim says of invalid events holds for every caller, and what it says of valid
ones holds for an anonymous caller. \<^verbatim>\<open>insert_telemetry_event\<close> raises its
validation error when the user id has fewer than 16 characters, when the event has none or
more than 100, or when the properties are not a JSON object. For an anonymous caller and
an event within the bounds, with a generated id that is not taken, it stores the event as
given and returns the id. Whenever it returns an id, no row had that id before and the new
row has it.
\<close>

theorem insert_telemetry_event_validates_and_stores:
  "(length u < 16 \<or> length e = 0 \<or> 100 < length e \<or> jsonb_typeof p \<noteq> ''object'' \<longrightarrow>
      (\<exists>msg. insert_telemetry_event ses u e p d = Inl (ValidationError msg)))
   \<and> (role ses = ''anon'' \<and> 16 \<le> length u \<and> length u \<le> 64 \<and> 1 \<le> length e \<and> length e \<le> 100
        \<and> jsonb_typeof p = ''object'' \<and> gen ses 0 \<notin> e_id ` set (telemetry_events d) \<longrightarrow>
      insert_telemetry_event ses u e p d =
        Inr (gen ses 0,
             d\<lparr>telemetry_events := telemetry_events d @
                 [\<lparr>e_id = gen ses 0, e_user_id = u, e_event = e, e_properties = p,
                   e_created_at = now ses\<rparr>]\<rparr>))
   \<and> (insert_telemetry_event ses u e p d = Inr (i, d') \<longrightarrow>
        i \<notin> e_id ` set (telemetry_events d) \<and> i \<in> e_id ` set (telemetry_events d'))"
proof (intro conjI impI)
  assume "length u < 16 \<or> length e = 0 \<or> 100 < length e \<or> jsonb_typeof p \<noteq> ''object''"
  then show "\<exists>msg. insert_telemetry_event ses u e p d = Inl (ValidationError msg)"
    by (auto simp: insert_telemetry_event_def)
next
  assume "role ses = ''anon'' \<and> 16 \<le> length u \<and> length u \<le> 64 \<and> 1 \<le> length e \<and> length e \<le> 100
        \<and> jsonb_typeof p = ''object'' \<and> gen ses 0 \<notin> e_id ` set (telemetry_events d)"
  then show "insert_telemetry_event ses u e p d =
        Inr (gen ses 0,
             d\<lparr>telemetry_events := telemetry_events d @
                 [\<lparr>e_id = gen ses 0, e_user_id = u, e_event = e, e_properties = p,
                   e_created_at = now ses\<rparr>]\<rparr>)"
    by (auto simp: insert_telemetry_event_def insert_into_telemetry_events_def
        fit_telemetry_events_row_def assign_varchar_fits check_telemetry_events_row_def
        audit_trigger_result)
next
  assume ok: "insert_telemetry_event ses u e p d = Inr (i, d')"
  then have ins: "insert_into_telemetry_events ses u e p d = Inr (i, d')"
    by (simp add: insert_telemetry_event_def split: if_splits)
  then obtain r where r: "fit_telemetry_events_row
          \<lparr>e_id = gen ses 0, e_user_id = u, e_event = e, e_properties = p,
           e_created_at = now ses\<rparr> = Inr r"
    by (cases "fit_telemetry_events_row
          \<lparr>e_id = gen ses 0, e_user_id = u, e_event = e, e_properties = p,
           e_created_at = now ses\<rparr>") (simp_all add: insert_into_telemetry_events_def)
  from ins r have "e_id r \<notin> e_id ` set (telemetry_events d)"
    and "i = e_id r" and "d' = d\<lparr>telemetry_events := telemetry_events d @ [r]\<rparr>"
    by (auto simp: insert_into_telemetry_events_def audit_trigger_result split: if_splits)
  then show "i \<notin> e_id ` set (telemetry_events d)" and "i \<in> e_id ` set (telemetry_events d')"
    by simp_all
qed

text \<open>
The scenario of the specification, and one event for each of the three checks.
\<close>

theorem insert_telemetry_event_validates_and_stores_witness:
  "insert_telemetry_event anonymous_session ''aaaaaaaaaaaaaaaaaaaa'' ''tool_usage''
       (JObject [(''tool'', JString ''slack'')]) (empty_db\<lparr>telemetry_events := [old_event]\<rparr>)
     = Inr (7, empty_db\<lparr>telemetry_events :=
                 [old_event,
                  \<lparr>e_id = 7, e_user_id = ''aaaaaaaaaaaaaaaaaaaa'', e_event = ''tool_usage'',
                    e_properties = JObject [(''tool'', JString ''slack'')],
                    e_created_at = ((2025, 6, 1), 0)\<rparr>]\<rparr>)
   \<and> (\<exists>msg. insert_telemetry_event anonymous_session ''short'' ''tool_usage'' (JObject []) empty_db
              = Inl (ValidationError msg))
   \<and> (\<exists>msg. insert_telemetry_event anonymous_session ''aaaaaaaaaaaaaaaaaaaa'' [] (JObject []) empty_db
              = Inl (ValidationError msg))
   \<and> (\<exists>msg. insert_telemetry_event anonymous_session ''aaaaaaaaaaaaaaaaaaaa'' ''tool_usage'' (JArray [])
              empty_db = Inl (ValidationError msg))"
  using insert_telemetry_event_validates_and_stores
          [of "''aaaaaaaaaaaaaaaaaaaa''" "''tool_usage''" "JObject [(''tool'', JString ''slack'')]"
              anonymous_session "empty_db\<lparr>telemetry_events := [old_event]\<rparr>"]
        insert_telemetry_event_validates_and_stores
          [of "''short''" "''tool_usage''" "JObject []" anonymous_session empty_db]
        insert_telemetry_event_validates_and_stores
          [of "''aaaaaaaaaaaaaaaaaaaa''" "[]" "JObject []" anonymous_session empty_db]
        insert_telemetry_event_validates_and_stores
          [of "''aaaaaaaaaaaaaaaaaaaa''" "''tool_usage''" "JArray []" anonymous_session empty_db]
  by (simp add: anonymous_session_def empty_db_def old_event_def)

text \<open>
Claim C10, as amended. A user id of more than 64 characters, with a valid event and
properties, passes the checks of the function, which test only the lower bound. The
column \<^verbatim>\<open>VARCHAR(64)\<close> then decides. When a character after the 64th is not a
space, the insert fails with the error of the storage engine and stores nothing, whoever
calls. When they are all spaces, the call does what the call with the user id cut to 64
characters does, whoever calls; for an anonymous caller and a generated id that is not
taken, that is to store the event with the cut user id.
\<close>

theorem long_user_id_meets_the_column:
  assumes "64 < length u" and "1 \<le> length e" and "length e \<le> 100"
    and "jsonb_typeof p = ''object''"
  shows "(\<not> list_all (\<lambda>c. c = CHR '' '') (drop 64 u) \<longrightarrow>
            insert_telemetry_event ses u e p d
              = Inl (StorageError ''value too long for type character varying(64)'')
          \<and> db_after (insert_telemetry_event ses u e p d) d = d)
       \<and> (list_all (\<lambda>c. c = CHR '' '') (drop 64 u) \<longrightarrow>
            insert_telemetry_event ses u e p d = insert_telemetry_event ses (take 64 u) e p d)
       \<and> (list_all (\<lambda>c. c = CHR '' '') (drop 64 u) \<and> role ses = ''anon''
            \<and> gen ses 0 \<notin> e_id ` set (telemetry_events d) \<longrightarrow>
            insert_telemetry_event ses u e p d =
              Inr (gen ses 0,
                   d\<lparr>telemetry_events := telemetry_events d @
                       [\<lparr>e_id = gen ses 0, e_user_id = take 64 u, e_event = e, e_properties = p,
                         e_created_at = now ses\<rparr>]\<rparr>))"
  using assms
  by (auto simp: insert_telemetry_event_def insert_into_telemetry_events_def
      fit_telemetry_events_row_def assign_varchar_def check_telemetry_events_row_def
      audit_trigger_result db_after_def decimal_64)

text \<open>
A user id of 65 letters is rejected by the column; one of 64 letters and two spaces is
handled as the 64 letters, and stored so for the anonymous caller.
\<close>

theorem long_user_id_meets_the_column_witness:
  "insert_telemetry_event service_session (replicate 65 (CHR ''a'')) ''tool_usage'' (JObject []) empty_db
     = Inl (StorageError ''value too long for type character varying(64)'')
   \<and> insert_telemetry_event service_session (replicate 64 (CHR ''a'') @ ''  '') ''tool_usage''
       (JObject []) empty_db
     = insert_telemetry_event service_session (replicate 64 (CHR ''a'')) ''tool_usage''
         (JObject []) empty_db
   \<and> insert_telemetry_event anonymous_session (replicate 64 (CHR ''a'') @ ''  '') ''tool_usage''
       (JObject []) empty_db
     = Inr (7, empty_db\<lparr>telemetry_events :=
                 [\<lparr>e_id = 7, e_user_id = replicate 64 (CHR ''a''), e_event = ''tool_usage'',
                   e_properties = JObject [], e_created_at = ((2025, 6, 1), 0)\<rparr>]\<rparr>)"
proof -
  have long: "64 < length (replicate 65 (CHR ''a''))" "64 < length (replicate 64 (CHR ''a'') @ ''  '')"
    and event: "1 \<le> length ''tool_usage''" "length ''tool_usage'' \<le> 100"
    and object: "jsonb_typeof (JObject []) = ''object''"
    by simp_all
  note letters = long_user_id_meets_the_column
                   [OF long(1) event object, where ses = service_session and d = empty_db]
  note spaces = long_user_id_meets_the_column
                  [OF long(2) event object, where ses = service_session and d = empty_db]
  note stored = long_user_id_meets_the_column
                  [OF long(2) event object, where ses = anonymous_session and d = empty_db]
  from letters have "insert_telemetry_event service_session (replicate 65 (CHR ''a'')) ''tool_usage''
      (JObject []) empty_db = Inl (StorageError ''value too long for type character varying(64)'')"
    by simp
  moreover from spaces [THEN conjunct2, THEN conjunct1]
  have "insert_telemetry_event service_session (replicate 64 (CHR ''a'') @ ''  '') ''tool_usage''
      (JObject []) empty_db
    = insert_telemetry_event service_session (replicate 64 (CHR ''a'')) ''tool_usage''
        (JObject []) empty_db"
    by simp
  moreover from stored [THEN conjunct2, THEN conjunct2]
  have "insert_telemetry_event anonymous_session (replicate 64 (CHR ''a'') @ ''  '') ''tool_usage''
      (JObject []) empty_db
    = Inr (7, empty_db\<lparr>telemetry_events :=
                 [\<lparr>e_id = 7, e_user_id = replicate 64 (CHR ''a''), e_event = ''tool_usage'',
                   e_properties = JObject [], e_created_at = ((2025, 6, 1), 0)\<rparr>]\<rparr>)"
    by (simp add: anonymous_session_def no_events_stored)
  ultimately show ?thesis by blast
qed

text \<open>
Claim C10 as stated fails: a user id of 65 characters, 64 letters and a space, does not
make the insert fail. The event is stored.
\<close>

theorem long_user_id_of_spaces_is_stored:
  "insert_telemetry_event anonymous_session (replicate 64 (CHR ''a'') @ '' '') ''tool_usage''
       (JObject []) empty_db
     = Inr (7, empty_db\<lparr>telemetry_events :=
                 [\<lparr>e_id = 7, e_user_id = replicate 64 (CHR ''a''), e_event = ''tool_usage'',
                   e_properties = JObject [], e_created_at = ((2025, 6, 1), 0)\<rparr>]\<rparr>)"
  by (simp add: insert_telemetry_event_def insert_into_telemetry_events_def
      fit_telemetry_events_row_def assign_varchar_def check_telemetry_events_row_def
      audit_trigger_result anonymous_session_def empty_db_def)

subsection \<open>Empty node types\<close>

text \<open>
Claim C6, at the input where the code departs from it. The workflow of the examples with
an empty \<open>node_types\<close>, all other fields valid. \<^verbatim>\<open>array_length\<close> of the empty
array is NULL, so neither the test \<^verbatim>\<open>array_length(p_node_types, 1) = 0\<close> of the
function nor the constraint \<^verbatim>\<open>array_length(node_types, 1) > 0\<close> of the table
rejects it: the call returns an id and the row is stored. The claim expects a validation
error and no row.
\<close>

theorem empty_node_types_are_stored:
  "insert_telemetry_workflow anonymous_session (sample_workflow\<lparr>p_node_types := []\<rparr>) empty_db
     = Inr (Some 7,
            empty_db\<lparr>telemetry_workflows :=
              [stored_workflow 7 ((2025, 6, 1), 0) (sample_workflow\<lparr>p_node_types := []\<rparr>)]\<rparr>)"
  by (simp add: insert_telemetry_workflow_def insert_into_telemetry_workflows_def
      fit_telemetry_workflows_row_def assign_varchar_def check_telemetry_workflows_row_def
      node_types_never_rejected audit_trigger_result unique_hash_user_def stored_workflow_def
      anonymous_session_def sample_workflow_def empty_db_def)

subsection \<open>Partitions by month\<close>

text \<open>
Claim C8, at the input where the code departs from it. For the events and the first of
January 2025 the function derives the name \<^verbatim>\<open>telemetry_events_2025_01\<close> and the
upper bound 2025-02-01 and asks for the partition; \<^verbatim>\<open>telemetry_events\<close> is not a
partitioned table, so the statement is rejected and the function fails. The claim expects
a partition for January 2025 to exist after the call.
\<close>

theorem partition_of_a_plain_table_is_not_created:
  "create_telemetry_partition ''telemetry_events'' (2025, 1, 1) empty_db
     = Inl (StorageError ''telemetry_events is not partitioned'')
   \<and> to_char_YYYY_MM (2025, 1, 1) = ''2025_01''
   \<and> plus_interval_1_month (2025, 1, 1) = (2025, 2, 1)"
proof -
  have "create_telemetry_partition ''telemetry_events'' (2025, 1, 1) empty_db
          = Inl (StorageError ''telemetry_events is not partitioned'')"
    by (subst create_telemetry_partition_result)
       (simp_all add: create_table_if_not_exists_partition_of_def january_2025 empty_db_def)
  then show ?thesis
    by (simp add: january_2025 plus_interval_1_month_def days_in_month_def)
qed

text \<open>
For either table and any date: while the table exists and is not partitioned, and no
relation has the name of the partition, \<^verbatim>\<open>create_telemetry_partition\<close> fails.
\<close>

theorem partition_needs_a_partitioned_table:
  assumes "t = ''telemetry_events'' \<or> t = ''telemetry_workflows''"
    and "t \<in> set (relations d)"
    and "t \<notin> set (partitioned d)"
    and "t @ ''_'' @ to_char_YYYY_MM sd \<notin> set (relations d)"
  shows "create_telemetry_partition t sd d = Inl (StorageError (t @ '' is not partitioned''))"
  using assms(2-4)
  by (simp add: create_telemetry_partition_result [OF assms(1)]
      create_table_if_not_exists_partition_of_def)

text \<open>
The workflows and a date within January 2025, in the database the script leaves.
\<close>

theorem partition_needs_a_partitioned_table_witness:
  "create_telemetry_partition ''telemetry_workflows'' (2025, 1, 15) empty_db
     = Inl (StorageError ''telemetry_workflows is not partitioned'')"
proof -
  have "''telemetry_workflows'' @ ''_'' @ to_char_YYYY_MM (2025, 1, 15) \<notin> set (relations empty_db)"
    by (simp add: january_2025 empty_db_def)
  from partition_needs_a_partitioned_table [OF _ _ _ this]
  show ?thesis
    by (simp add: empty_db_def)
qed

text \<open>
Were the table partitioned, with no relation of the name of the partition and no partition
overlapping the range, the function would create the partition from its argument
\<open>start_date\<close> to the same day one month later: only the name is that of the month.
A call for any date of the same month afterwards finds the name and does nothing.
\<close>

theorem partition_of_a_partitioned_table:
  assumes "t = ''telemetry_events'' \<or> t = ''telemetry_workflows''"
    and "t \<in> set (relations d)"
    and "t \<in> set (partitioned d)"
    and "t @ ''_'' @ to_char_YYYY_MM (y, m, dd) \<notin> set (relations d)"
    and "\<not> list_ex (\<lambda>p. p_parent p = t \<and> (y, m, dd) < p_to p
                          \<and> p_from p < plus_interval_1_month (y, m, dd)) (partitions d)"
  shows "create_telemetry_partition t (y, m, dd) d =
           Inr (d\<lparr>relations := relations d @ [t @ ''_'' @ to_char_YYYY_MM (y, m, dd)],
                  partitions := partitions d @
                    [\<lparr>p_name = t @ ''_'' @ to_char_YYYY_MM (y, m, dd), p_parent = t,
                      p_from = (y, m, dd), p_to = plus_interval_1_month (y, m, dd)\<rparr>]\<rparr>)
         \<and> create_telemetry_partition t (y, m, dd')
             (d\<lparr>relations := relations d @ [t @ ''_'' @ to_char_YYYY_MM (y, m, dd)],
                partitions := partitions d @
                  [\<lparr>p_name = t @ ''_'' @ to_char_YYYY_MM (y, m, dd), p_parent = t,
                    p_from = (y, m, dd), p_to = plus_interval_1_month (y, m, dd)\<rparr>]\<rparr>)
           = Inr (d\<lparr>relations := relations d @ [t @ ''_'' @ to_char_YYYY_MM (y, m, dd)],
                    partitions := partitions d @
                      [\<lparr>p_name = t @ ''_'' @ to_char_YYYY_MM (y, m, dd), p_parent = t,
                        p_from = (y, m, dd), p_to = plus_interval_1_month (y, m, dd)\<rparr>]\<rparr>)"
proof -
  have same: "to_char_YYYY_MM (y, m, dd') = to_char_YYYY_MM (y, m, dd)"
    by (simp add: to_char_YYYY_MM_def)
  show ?thesis
    using assms(2-5) month_later [of "(y, m, dd)"]
    by (simp add: create_telemetry_partition_result [OF assms(1)]
        create_table_if_not_exists_partition_of_def same)
qed

text \<open>
The events partitioned, and the date 2025-01-15: the partition \<^verbatim>\<open>telemetry_events_2025_01\<close>
takes the rows from 2025-01-15 to 2025-02-15.
\<close>

theorem partition_of_a_partitioned_table_witness:
  "create_telemetry_partition ''telemetry_events'' (2025, 1, 15)
       (empty_db\<lparr>partitioned := [''telemetry_events'']\<rparr>)
     = Inr (empty_db\<lparr>partitioned := [''telemetry_events''],
                     relations := relations empty_db @ [''telemetry_events_2025_01''],
                     partitions := [\<lparr>p_name = ''telemetry_events_2025_01'',
                                     p_parent = ''telemetry_events'',
                                     p_from = (2025, 1, 15), p_to = (2025, 2, 15)\<rparr>]\<rparr>)"
proof -
  let ?d = "empty_db\<lparr>partitioned := [''telemetry_events'']\<rparr>"
  have name: "''telemetry_events'' @ ''_'' @ to_char_YYYY_MM (2025, 1, 15) \<notin> set (relations ?d)"
    by (simp add: january_2025 empty_db_def)
  have free: "\<not> list_ex (\<lambda>p. p_parent p = ''telemetry_events'' \<and> (2025, 1, 15) < p_to p
                          \<and> p_from p < plus_interval_1_month (2025, 1, 15)) (partitions ?d)"
    by (simp add: empty_db_def)
  have to: "plus_interval_1_month (2025, Suc 0, 15) = (2025, 2, 15)"
    by (simp add: plus_interval_1_month_def days_in_month_def)
  from partition_of_a_partitioned_table [OF _ _ _ name free, THEN conjunct1]
  show ?thesis
    by (simp add: january_2025 to empty_db_def)
qed

subsection \<open>Statistics of today\<close>

text \<open>
Claim C9. \<open>events_today\<close> and \<open>workflows_today\<close> count the rows whose
\<open>created_at\<close> falls on the current date, and are the same for any two windows.
\<close>

theorem today_counts_ignore_the_window:
  "map_of (get_telemetry_stats ses start_date end_date d) ''events_today''
     = Some (int (length (filter (\<lambda>r. DATE (e_created_at r) = CURRENT_DATE ses) (telemetry_events d))))
   \<and> map_of (get_telemetry_stats ses start_date end_date d) ''workflows_today''
     = Some (int (length (filter (\<lambda>r. DATE (w_created_at r) = CURRENT_DATE ses)
                            (telemetry_workflows d))))
   \<and> map_of (get_telemetry_stats ses start_date end_date d) ''events_today''
     = map_of (get_telemetry_stats ses start_date' end_date' d) ''events_today''
   \<and> map_of (get_telemetry_stats ses start_date end_date d) ''workflows_today''
     = map_of (get_telemetry_stats ses start_date' end_date' d) ''workflows_today''"
  by (simp add: get_telemetry_stats_def Let_def)

text \<open>
A window within 2020, asked on 2025-06-01: the event of today is outside the window and is
counted in \<open>events_today\<close>.
\<close>

theorem today_counts_ignore_the_window_witness:
  "get_telemetry_stats service_session (Some ((2020, 1, 1), 0)) (Some ((2020, 12, 31), 0))
       (empty_db\<lparr>telemetry_events := [old_event, todays_event]\<rparr>)
     = [(''total_events'', 1), (''total_workflows'', 0), (''unique_users'', 1),
        (''events_today'', 1), (''workflows_today'', 0)]
   \<and> map_of (get_telemetry_stats service_session (Some ((2020, 1, 1), 0)) (Some ((2020, 12, 31), 0))
        (empty_db\<lparr>telemetry_events := [old_event, todays_event]\<rparr>)) ''events_today'' = Some 1"
  using today_counts_ignore_the_window
          [of service_session "Some ((2020, 1, 1), 0)" "Some ((2020, 12, 31), 0)"
              "empty_db\<lparr>telemetry_events := [old_event, todays_event]\<rparr>"]
  by (simp add: get_telemetry_stats_def Let_def DATE_def CURRENT_DATE_def service_session_def
      empty_db_def old_event_def todays_event_def)

end
